theory Spec2Isabelle
  imports Main "HOL-Library.Product_Lexorder" "HOL-Library.Sublist"
begin

section \<open>Failures\<close>

text \<open>
  Every failure a command can raise is an exception of the C++ source. A
  \<open>Kakoune::runtime_error\<close> carries a message and is what the command layer
  reports or intercepts (\<open>catch (Kakoune::runtime_error&)\<close>); \<open>client_removed\<close>
  (thrown by \<open>quit\<close>) is not a \<open>runtime_error\<close>; a failed \<open>kak_assert\<close> or
  \<open>assert\<close> is not an exception a command can intercept at all.
\<close>

datatype error =
    runtime_error string
  | client_removed
  | assert_failed

fun recoverable :: "error \<Rightarrow> bool" where
  "recoverable (runtime_error msg) = True"
| "recoverable client_removed = False"
| "recoverable assert_failed = False"

definition wrong_argument_count :: error where
  "wrong_argument_count = runtime_error ''wrong argument count''"

section \<open>Parsed command parameters\<close>

text \<open>
  \<open>ParametersParser\<close> (its code is not among the sources) splits the parameters
  of a command into the switches given (\<open>-name\<close>, with the value of a switch that
  takes one) and the positional parameters. The model starts from the parsed
  form; the bounds on the number of positionals that each command passes to the
  constructor are checked by the command's model.
\<close>

record parameters_parser =
  switches :: "(string \<times> string) list"
  positionals :: "string list"

definition has_option :: "parameters_parser \<Rightarrow> string \<Rightarrow> bool" where
  "has_option parser name = (map_of (switches parser) name \<noteq> None)"

definition option_value :: "parameters_parser \<Rightarrow> string \<Rightarrow> string" where
  "option_value parser name =
     (case map_of (switches parser) name of Some v \<Rightarrow> v | None \<Rightarrow> [])"

definition positional_count :: "parameters_parser \<Rightarrow> nat" where
  "positional_count parser = length (positionals parser)"

section \<open>declare_option (commands.cc, lines 477 to 509)\<close>

datatype option_type =
    IntOption | BoolOption | StrOption | RegexOption
  | IntListOption | StrListOption | LineFlagListOption

datatype option_flags = OptionFlagsNone | OptionFlagsHidden

text \<open>
  \<open>GlobalOptions\<close> is not among the sources. Its two operations are parameters
  of the model: \<open>declare ty name flags\<close> is \<open>declare_option<T>(name, default, flags)\<close>
  and \<open>set_from_string name value\<close> is \<open>Option::set_from_string\<close> on the option
  registered under \<open>name\<close>; either may throw. The option pointer \<open>opt\<close> of the
  source is the name the option was declared under.
\<close>

definition declare_option ::
  "(option_type \<Rightarrow> string \<Rightarrow> option_flags \<Rightarrow> 'r \<Rightarrow> error + 'r) \<Rightarrow>
   (string \<Rightarrow> string \<Rightarrow> 'r \<Rightarrow> error + 'r) \<Rightarrow>
   parameters_parser \<Rightarrow> 'r \<Rightarrow> (error + unit) \<times> 'r" where
  "declare_option declare set_from_string parser opts =
     (if positional_count parser < 2 \<or> 3 < positional_count parser
      then (Inl wrong_argument_count, opts)
      else
        let flags = (if has_option parser ''hidden'' then OptionFlagsHidden else OptionFlagsNone);
            ty = positionals parser ! 0;
            name = positionals parser ! 1
        in case (if ty = ''int'' then declare IntOption name flags opts else Inr opts) of
             Inl e \<Rightarrow> (Inl e, opts)
           | Inr opts1 \<Rightarrow>
              (case (if ty = ''bool'' then Some BoolOption
                     else if ty = ''str'' then Some StrOption
                     else if ty = ''regex'' then Some RegexOption
                     else if ty = ''int-list'' then Some IntListOption
                     else if ty = ''str-list'' then Some StrListOption
                     else if ty = ''line-flag-list'' then Some LineFlagListOption
                     else None) of
                 None \<Rightarrow> (Inl (runtime_error (''unknown type '' @ ty)), opts1)
               | Some t \<Rightarrow>
                  (case declare t name flags opts1 of
                     Inl e \<Rightarrow> (Inl e, opts1)
                   | Inr opts2 \<Rightarrow>
                      if positional_count parser = 3
                      then (case set_from_string name (positionals parser ! 2) opts2 of
                              Inl e \<Rightarrow> (Inl e, opts2)
                            | Inr opts3 \<Rightarrow> (Inr (), opts3))
                      else (Inr (), opts2))))"

text \<open>A registry to run the model on: the options declared, in order, with their values.\<close>

type_synonym simple_options = "(string \<times> option_type \<times> string) list"

definition simple_declare ::
  "option_type \<Rightarrow> string \<Rightarrow> option_flags \<Rightarrow> simple_options \<Rightarrow> error + simple_options" where
  "simple_declare ty name flags opts =
     (case map_of opts name of
        None \<Rightarrow> Inr (opts @ [(name, ty, [])])
      | Some (ty', v) \<Rightarrow>
          if ty' = ty then Inr opts
          else Inl (runtime_error ''option already declared with different type''))"

definition simple_set_from_string ::
  "string \<Rightarrow> string \<Rightarrow> simple_options \<Rightarrow> error + simple_options" where
  "simple_set_from_string name v opts =
     Inr (map (\<lambda>(n, ty, old). if n = name then (n, ty, v) else (n, ty, old)) opts)"

section \<open>try_catch (commands.cc, lines 689 to 708)\<close>

text \<open>
  \<open>CommandManager::execute\<close> is the parameter \<open>execute\<close>: it runs a command
  string on the editor state and either returns or throws, and the state it
  leaves behind is kept in both cases.
\<close>

definition try_catch ::
  "(string \<Rightarrow> 's \<Rightarrow> (error + unit) \<times> 's) \<Rightarrow> string list \<Rightarrow> 's \<Rightarrow> (error + unit) \<times> 's" where
  "try_catch execute params s =
     (if length params \<noteq> 1 \<and> length params \<noteq> 3 then (Inl wrong_argument_count, s)
      else
        let do_catch = (length params = 3) in
        if do_catch \<and> params ! 1 \<noteq> ''catch''
        then (Inl (runtime_error ''usage: try <commands> [catch <on error commands>]''), s)
        else
          (case execute (params ! 0) s of
             (Inr u, s') \<Rightarrow> (Inr (), s')
           | (Inl (runtime_error msg), s') \<Rightarrow>
               if do_catch then execute (params ! 2) s' else (Inr (), s')
           | (Inl e, s') \<Rightarrow> (Inl e, s')))"

text \<open>A command executor to run the model on: the command \<open>fail\<close> throws, any
  other command appends its text to a log.\<close>

definition log_execute :: "string \<Rightarrow> string list \<Rightarrow> (error + unit) \<times> string list" where
  "log_execute cmd log =
     (if cmd = ''fail'' then (Inl (runtime_error ''fail''), log) else (Inr (), log @ [cmd]))"

section \<open>exec_keys and RegisterRestorer (commands.cc, lines 781 to 810)\<close>

text \<open>
  The registers are the table of \<open>RegisterManager\<close>, from a register's name to
  its values; the rest of the editor (the context with its input handler, the
  buffer, the edition level) is the field \<open>editor\<close>. Handling a key may change
  all of it and may throw; \<open>ScopedEdition\<close> calls \<open>begin_edition\<close> and
  \<open>end_edition\<close> of the context.
\<close>

record 'c exec_state =
  registers :: "char \<Rightarrow> string list"
  editor :: 'c

fun handle_keys ::
  "('k \<Rightarrow> 'c exec_state \<Rightarrow> (error + unit) \<times> 'c exec_state) \<Rightarrow> 'k list \<Rightarrow>
   'c exec_state \<Rightarrow> (error + unit) \<times> 'c exec_state" where
  "handle_keys handle_key [] s = (Inr (), s)"
| "handle_keys handle_key (key # keys) s =
     (case handle_key key s of
        (Inl e, s') \<Rightarrow> (Inl e, s')
      | (Inr u, s') \<Rightarrow> handle_keys handle_key keys s')"

definition restore_register :: "char \<Rightarrow> string list \<Rightarrow> 'c exec_state \<Rightarrow> 'c exec_state" where
  "restore_register name save s = s\<lparr>registers := (registers s)(name := save)\<rparr>"

definition exec_keys ::
  "('k \<Rightarrow> 'c exec_state \<Rightarrow> (error + unit) \<times> 'c exec_state) \<Rightarrow> ('c \<Rightarrow> 'c) \<Rightarrow> ('c \<Rightarrow> 'c) \<Rightarrow>
   'k list \<Rightarrow> 'c exec_state \<Rightarrow> (error + unit) \<times> 'c exec_state" where
  "exec_keys handle_key begin_edition end_edition keys s =
     (let quote = registers s (CHR 0x22);
          slash = registers s (CHR ''/'');
          s1 = s\<lparr>editor := begin_edition (editor s)\<rparr>;
          (r, s2) = handle_keys handle_key keys s1;
          s3 = s2\<lparr>editor := end_edition (editor s2)\<rparr>;
          s4 = restore_register (CHR ''/'') slash s3;
          s5 = restore_register (CHR 0x22) quote s4
      in (r, s5))"

section \<open>Registries (function_registry.hh, highlighter_registry.cc)\<close>

text \<open>
  Modelled from the spec: \<open>id_map\<close> (id_map.hh is not among the sources) is the
  keyed container of the spec, "name to value, stable insertion order": a vector
  of pairs of a name and a value.
\<close>

type_synonym 'v id_map = "(string \<times> 'v) list"

text \<open>Modelled from the spec: \<open>id_map::contains\<close> (not among the sources) tells
  whether an entry has the name.\<close>

definition id_map_contains :: "'v id_map \<Rightarrow> string \<Rightarrow> bool" where
  "id_map_contains m name = (map_of m name \<noteq> None)"

text \<open>Modelled from the spec: \<open>id_map::append\<close> (not among the sources) adds the
  entry at the end, which keeps the insertion order.\<close>

definition id_map_append :: "'v id_map \<Rightarrow> string \<times> 'v \<Rightarrow> 'v id_map" where
  "id_map_append m entry = m @ [entry]"

text \<open>Modelled from the spec: \<open>id_map::find\<close> (not among the sources) returns the
  first entry with the name, in insertion order, or none.\<close>

definition id_map_find :: "'v id_map \<Rightarrow> string \<Rightarrow> 'v option" where
  "id_map_find m name = map_of m name"

text \<open>
  \<open>kak_assert\<close> and \<open>assert\<close> check their condition in a debug build only
  (\<open>assertions = True\<close>); a failed assertion stops the operation and is not a
  \<open>runtime_error\<close>. With assertions compiled out the statement after it runs.
\<close>

definition register_func :: "bool \<Rightarrow> string \<Rightarrow> 'f \<Rightarrow> 'f id_map \<Rightarrow> error + 'f id_map" where
  "register_func assertions name func m_functions =
     (if assertions \<and> id_map_contains m_functions name then Inl assert_failed
      else Inr (id_map_append m_functions (name, func)))"

definition function_not_found :: "string \<Rightarrow> error" where
  "function_not_found name = runtime_error ([CHR 0x27] @ name @ [CHR 0x27] @ '' not found'')"

definition registry_lookup :: "'f id_map \<Rightarrow> string \<Rightarrow> error + 'f" where
  "registry_lookup m_functions name =
     (case id_map_find m_functions name of
        None \<Rightarrow> Inl (function_not_found name)
      | Some f \<Rightarrow> Inr f)"

definition register_factory :: "bool \<Rightarrow> string \<Rightarrow> 'f \<Rightarrow> 'f id_map \<Rightarrow> error + 'f id_map" where
  "register_factory assertions name factory m_factories =
     (if assertions \<and> id_map_contains m_factories name then Inl assert_failed
      else Inr (id_map_append m_factories (name, factory)))"

definition factory_not_found :: "string \<Rightarrow> error" where
  "factory_not_found name =
     runtime_error (''highlighter factory not found '' @ [CHR 0x27] @ name @ [CHR 0x27])"

text \<open>The lookup of \<open>add_highlighter_to_window\<close>: the factory found under the name.\<close>

definition find_factory :: "'f id_map \<Rightarrow> string \<Rightarrow> error + 'f" where
  "find_factory m_factories name =
     (case id_map_find m_factories name of
        None \<Rightarrow> Inl (factory_not_found name)
      | Some f \<Rightarrow> Inr f)"

section \<open>Scope resolution (commands.cc, lines 289 to 298, 451 to 462, 512 to 521)\<close>

text \<open>
  Modelled from the spec: \<open>prefix_match str prefix\<close> (string.hh is not among the
  sources) tells whether \<open>str\<close> starts with \<open>prefix\<close>, case-sensitively: a scope
  keyword is matched "by case-sensitive prefix against global, buffer, window",
  and line 459 tests that the scope starts with \<open>buffer=\<close> before line 460 drops
  these seven bytes.
\<close>

definition prefix_match :: "string \<Rightarrow> string \<Rightarrow> bool" where
  "prefix_match str pre = prefix pre str"

text \<open>
  A resolved scope is the registry instance it denotes: the global singleton,
  the one of a document (by the document's name) or the one of a view. What a
  scope function needs of the context is the document it is bound to and its
  window, if it has one (line 594 tests \<open>has_window\<close>).
\<close>

datatype scope_ref = GlobalScope | BufferScope string | WindowScope nat

record scope_context =
  current_buffer :: string
  current_window :: "nat option"

text \<open>
  Modelled from the spec: \<open>Context::window\<close> (context.hh is not among the
  sources) returns the view of the context; a context without a view has no
  per-view registry, and asking for it is a recoverable failure.
\<close>

definition context_window :: "scope_context \<Rightarrow> error + scope_ref" where
  "context_window ctx =
     (case current_window ctx of
        None \<Rightarrow> Inl (runtime_error ''no window in context'')
      | Some w \<Rightarrow> Inr (WindowScope w))"

definition get_hook_manager :: "string \<Rightarrow> scope_context \<Rightarrow> error + scope_ref" where
  "get_hook_manager scope ctx =
     (if prefix_match ''global'' scope then Inr GlobalScope
      else if prefix_match ''buffer'' scope then Inr (BufferScope (current_buffer ctx))
      else if prefix_match ''window'' scope then context_window ctx
      else Inl (runtime_error (''error: no such hook container '' @ scope)))"

text \<open>
  Modelled from the spec: \<open>BufferManager::get_buffer\<close> (not among the sources)
  returns the document of the given name and fails with a recoverable
  \<open>NotFound\<close> failure when there is none; the buffer manager is the list of the
  names of the open documents.
\<close>

definition get_buffer :: "string list \<Rightarrow> string \<Rightarrow> error + string" where
  "get_buffer buffers name =
     (if name \<in> set buffers then Inr name
      else Inl (runtime_error (''no such buffer '' @ name)))"

definition get_options :: "string list \<Rightarrow> string \<Rightarrow> scope_context \<Rightarrow> error + scope_ref" where
  "get_options buffers scope ctx =
     (if prefix_match ''global'' scope then Inr GlobalScope
      else if prefix_match ''buffer'' scope then Inr (BufferScope (current_buffer ctx))
      else if prefix_match ''window'' scope then context_window ctx
      else if prefix_match scope ''buffer='' then
        (case get_buffer buffers (drop 7 scope) of
           Inl e \<Rightarrow> Inl e
         | Inr b \<Rightarrow> Inr (BufferScope b))
      else Inl (runtime_error (''error: no such option container '' @ scope)))"

definition get_keymap_manager :: "string \<Rightarrow> scope_context \<Rightarrow> error + scope_ref" where
  "get_keymap_manager scope ctx =
     (if prefix_match ''global'' scope then Inr GlobalScope
      else if prefix_match ''buffer'' scope then Inr (BufferScope (current_buffer ctx))
      else if prefix_match ''window'' scope then context_window ctx
      else Inl (runtime_error (''error: no such keymap container '' @ scope)))"

section \<open>define_command and its completers (commands.cc, lines 333 to 410)\<close>

datatype completion_flags = CompletionNone | CompletionFast

datatype command_flags = CommandFlagsNone | CommandFlagsHidden

text \<open>
  The closures \<open>define_command\<close> builds, by what they capture: the command runs
  the command string (with the parameters as environment variables, as shell
  parameters, or with no parameter allowed), the completer is empty, completes
  file names, or evaluates the captured shell command.
\<close>

datatype command =
    NoCommand
  | EnvParamsCommand string
  | ShellParamsCommand string
  | PlainCommand string

datatype command_completer =
    NoCompleter
  | FilenameCompleter
  | ShellCompleter string

text \<open>
  \<open>CommandManager\<close> is not among the sources: it is the table of the registered
  commands by name; \<open>register_command\<close> stores the entry under the name.
\<close>

type_synonym command_manager = "string \<rightharpoonup> command \<times> command_flags \<times> command_completer"

definition define_command :: "parameters_parser \<Rightarrow> command_manager \<Rightarrow> error + command_manager" where
  "define_command parser cm =
     (if positional_count parser \<noteq> 2 then Inl wrong_argument_count
      else
        let cmd_name = positionals parser ! 0 in
        if cm cmd_name \<noteq> None \<and> \<not> has_option parser ''allow-override''
        then Inl (runtime_error (''command '' @ [CHR 0x27] @ cmd_name @ [CHR 0x27] @ '' already defined''))
        else
          let flags = (if has_option parser ''hidden'' then CommandFlagsHidden else CommandFlagsNone);
              commands = positionals parser ! 1;
              cmd_env = (if has_option parser ''env-params'' then EnvParamsCommand commands
                         else NoCommand);
              cmd = (if has_option parser ''shell-params'' then ShellParamsCommand commands
                     else PlainCommand commands);
              completer =
                (if has_option parser ''file-completion'' then FilenameCompleter
                 else if has_option parser ''shell-completion''
                 then ShellCompleter (option_value parser ''shell-completion'')
                 else NoCompleter)
          in Inr (cm(cmd_name \<mapsto> (cmd, flags, completer))))"

text \<open>\<open>to_string\<close> (string.hh is not among the sources) writes a number in
  decimal digits, with a minus sign when it is negative.\<close>

function to_string_nat :: "nat \<Rightarrow> string" where
  "to_string_nat n =
     (if n < 10 then [char_of (48 + n)]
      else to_string_nat (n div 10) @ [char_of (48 + n mod 10)])"
  by pat_completeness auto
termination
  by (relation "measure id") auto

definition to_string :: "int \<Rightarrow> string" where
  "to_string i = (if i < 0 then ''-'' @ to_string_nat (nat (- i)) else to_string_nat (nat i))"

text \<open>
  Running a completer. The shell is an external collaborator with a state of
  its own: \<open>shell_eval cmd ctx params vars\<close> is \<open>ShellManager::eval\<close>, which runs
  the command and returns its output; \<open>split\<close> and \<open>complete_filename\<close> are the
  helpers of these names. An empty completer is never called and yields no
  candidate.
\<close>

definition run_completer ::
  "(string \<Rightarrow> 'ctx \<Rightarrow> string list \<Rightarrow> (string \<times> string) list \<Rightarrow> 'sh \<Rightarrow> string \<times> 'sh) \<Rightarrow>
   (string \<Rightarrow> char \<Rightarrow> string list) \<Rightarrow>
   (string \<Rightarrow> 'ctx \<Rightarrow> int \<Rightarrow> string list) \<Rightarrow>
   command_completer \<Rightarrow> 'ctx \<Rightarrow> completion_flags \<Rightarrow> string list \<Rightarrow> nat \<Rightarrow> int \<Rightarrow> 'sh \<Rightarrow>
   string list \<times> 'sh" where
  "run_completer shell_eval split complete_filename completer ctx flags params
     token_to_complete pos_in_token sh =
     (case completer of
        NoCompleter \<Rightarrow> ([], sh)
      | FilenameCompleter \<Rightarrow>
          (let pre = (if token_to_complete < length params then params ! token_to_complete else [])
           in (complete_filename pre ctx pos_in_token, sh))
      | ShellCompleter shell_cmd \<Rightarrow>
          if flags = CompletionFast then ([], sh)
          else
            let vars = [(''token_to_complete'', to_string (int token_to_complete)),
                        (''pos_in_token'', to_string pos_in_token)];
                (output, sh') = shell_eval shell_cmd ctx params vars sh
            in (split output (CHR 0x0A), sh'))"

text \<open>A shell to run the model on: it records every command it evaluates.\<close>

definition recording_shell ::
  "string \<Rightarrow> unit \<Rightarrow> string list \<Rightarrow> (string \<times> string) list \<Rightarrow> string list \<Rightarrow> string \<times> string list" where
  "recording_shell cmd ctx params vars evaluated = (''out'', evaluated @ [cmd])"

section \<open>The selection tracker (dynamic_selection_list.hh)\<close>

text \<open>
  Modelled from the spec: selection.hh is not among the sources. A coordinate
  is "(line, byte-offset-within-line), totally ordered, compared
  lexicographically line-major"; a selection is "an ordered pair of
  coordinates (anchor, cursor)", \<open>first\<close> and \<open>last\<close> in the code that uses them
  (commands.cc, lines 673 to 679). The main selection index and the captured
  strings of a selection take no part in what follows and are left out.
\<close>

type_synonym buffer_coord = "int \<times> int"

record selection =
  sel_first :: buffer_coord
  sel_last :: buffer_coord

text \<open>Modelled from the spec: \<open>min\<close> of a selection (selection.hh is not among
  the sources) is its end that comes first in the document.\<close>

definition sel_min :: "selection \<Rightarrow> buffer_coord" where
  "sel_min sel = min (sel_first sel) (sel_last sel)"

text \<open>Modelled from the spec: \<open>max\<close> of a selection (selection.hh is not among
  the sources) is its end that comes last in the document.\<close>

definition sel_max :: "selection \<Rightarrow> buffer_coord" where
  "sel_max sel = max (sel_first sel) (sel_last sel)"

text \<open>
  Modelled from the spec: the source holds the declaration of
  \<open>DynamicSelectionList\<close> only; the bodies of \<open>on_insert\<close>, \<open>on_erase\<close> and
  \<open>check_invariant\<close> are missing. On an insertion of the span from \<open>begin\<close> to
  \<open>end\<close>, a coordinate at or after \<open>begin\<close> is shifted forward by the extent of
  the span: by its lines, and by its bytes when the coordinate is on the line
  the insertion starts on. A coordinate before \<open>begin\<close> stays.
\<close>

definition update_insert :: "buffer_coord \<Rightarrow> buffer_coord \<Rightarrow> buffer_coord \<Rightarrow> buffer_coord" where
  "update_insert begin end coord =
     (if coord < begin then coord
      else (fst coord + (fst end - fst begin),
            if fst coord = fst begin then snd coord + (snd end - snd begin) else snd coord))"

text \<open>
  Modelled from the spec: on an erasure of the span from \<open>begin\<close> to \<open>end\<close>, a
  coordinate before \<open>begin\<close> stays, a coordinate inside the span collapses to
  \<open>begin\<close>, and a coordinate at or after \<open>end\<close> is shifted backward by the extent
  of the span.
\<close>

definition update_erase :: "buffer_coord \<Rightarrow> buffer_coord \<Rightarrow> buffer_coord \<Rightarrow> buffer_coord" where
  "update_erase begin end coord =
     (if coord < begin then coord
      else if coord < end then begin
      else (fst coord - (fst end - fst begin),
            if fst coord = fst end then snd begin + (snd coord - snd end) else snd coord))"

text \<open>Modelled from the spec: a handler rewrites "every selection coordinate", the
  anchor and the cursor of every selection alike.\<close>

definition update_selection :: "(buffer_coord \<Rightarrow> buffer_coord) \<Rightarrow> selection \<Rightarrow> selection" where
  "update_selection f sel = sel\<lparr>sel_first := f (sel_first sel), sel_last := f (sel_last sel)\<rparr>"

text \<open>
  Modelled from the spec: two selections overlap or touch when each starts no
  later than the other ends; \<open>[(1,0),(1,2)]\<close> and \<open>[(1,2),(1,4)]\<close> touch.
\<close>

definition overlaps :: "selection \<Rightarrow> selection \<Rightarrow> bool" where
  "overlaps a b = (sel_min b \<le> sel_max a \<and> sel_min a \<le> sel_max b)"

text \<open>
  Modelled from the spec: two selections that overlap or touch are merged "into
  one spanning both (union of ranges), preserving the earlier one's identity":
  the merged selection keeps the direction of the earlier one.
\<close>

definition merge_with :: "selection \<Rightarrow> selection \<Rightarrow> selection" where
  "merge_with a b =
     (let lo = min (sel_min a) (sel_min b); hi = max (sel_max a) (sel_max b)
      in if sel_first a \<le> sel_last a then a\<lparr>sel_first := lo, sel_last := hi\<rparr>
         else a\<lparr>sel_first := hi, sel_last := lo\<rparr>)"

text \<open>Modelled from the spec: the merging pass over a list sorted by position; a
  selection is merged with its successors as long as it overlaps or touches the
  next one.\<close>

fun merge_overlapping :: "selection list \<Rightarrow> selection list" where
  "merge_overlapping [] = []"
| "merge_overlapping [a] = [a]"
| "merge_overlapping (a # b # sels) =
     (if overlaps a b then merge_overlapping (merge_with a b # sels)
      else a # merge_overlapping (b # sels))"

text \<open>
  Modelled from the spec: after either handler has rewritten the coordinates,
  "the tracker re-sorts and re-merges overlapping/touching selections".
\<close>

definition sort_and_merge :: "selection list \<Rightarrow> selection list" where
  "sort_and_merge sels = merge_overlapping (sort_key sel_min sels)"

text \<open>Modelled from the spec: \<open>on_insert\<close> (declared at dynamic_selection_list.hh,
  line 22; its body is not among the sources) rewrites every coordinate for the
  insertion, then re-sorts and re-merges.\<close>

definition on_insert :: "buffer_coord \<Rightarrow> buffer_coord \<Rightarrow> selection list \<Rightarrow> selection list" where
  "on_insert begin end sels =
     sort_and_merge (map (update_selection (update_insert begin end)) sels)"

text \<open>Modelled from the spec: \<open>on_erase\<close> (declared at dynamic_selection_list.hh,
  line 23; its body is not among the sources) rewrites every coordinate for the
  erasure, then re-sorts and re-merges.\<close>

definition on_erase :: "buffer_coord \<Rightarrow> buffer_coord \<Rightarrow> selection list \<Rightarrow> selection list" where
  "on_erase begin end sels =
     sort_and_merge (map (update_selection (update_erase begin end)) sels)"

text \<open>
  Modelled from the spec: \<open>check_invariant\<close> (declared at
  dynamic_selection_list.hh, line 19; its body is not among the sources) tests
  the invariants asserted after a handler has run, "non-empty, sorted,
  non-overlapping": no selection reaches the start of a later one.
\<close>

definition check_invariant :: "selection list \<Rightarrow> bool" where
  "check_invariant sels =
     (sels \<noteq> [] \<and> sorted (map sel_min sels)
      \<and> sorted_wrt (\<lambda>a b. sel_max a < sel_min b) sels)"

text \<open>Modelled from the spec: the mutation events of a document (buffer.hh is not
  among the sources), "inserted(doc, begin, end)" and "erased(doc, begin, end)".\<close>

datatype buffer_change =
    Inserted buffer_coord buffer_coord
  | Erased buffer_coord buffer_coord

text \<open>Modelled from the spec: the text store delivers an event to the handler of
  its kind.\<close>

fun on_change :: "buffer_change \<Rightarrow> selection list \<Rightarrow> selection list" where
  "on_change (Inserted begin end) sels = on_insert begin end sels"
| "on_change (Erased begin end) sels = on_erase begin end sels"

text \<open>Modelled from the spec: the events are delivered "in document-mutation
  order", each processed before the next.\<close>

definition on_changes :: "buffer_change list \<Rightarrow> selection list \<Rightarrow> selection list" where
  "on_changes changes sels = foldl (\<lambda>s ev. on_change ev s) sels changes"

section \<open>context_wrap (commands.cc, lines 547 to 596)\<close>

text \<open>
  What \<open>context_wrap\<close> reads of an execution context: the document it is bound
  to (by name), its selections, its name, whether an edition is in progress
  (\<open>is_editing\<close>), whether it commits undo groups, and the timestamp of its
  window when it has one. The contexts live in the world under their identity
  (the address of the source), and \<open>ClientManager\<close> maps the name of a client to
  the identity of its context.
\<close>

record exec_context =
  ctx_buffer :: string
  ctx_selections :: "selection list"
  ctx_name :: string
  ctx_editing :: bool
  ctx_undo_handling :: bool
  ctx_window :: "int option"

record 'x world =
  contexts :: "nat \<Rightarrow> exec_context"
  clients :: "(string \<times> nat) list"
  extern :: 'x

text \<open>
  The command closure \<open>func(parser, context)\<close>. It is called on a context, and
  the commands it executes go through the singletons of the editor
  (\<open>ClientManager\<close>, \<open>CommandManager\<close>, the registers), so it reads and may
  change the whole world: the contexts of the clients, the clients, and the
  rest (\<open>'x\<close>: the text of the documents, the registers, whatever the command
  writes to). It returns or throws, and leaves behind the context it was
  called on, the world, and the mutations it made to documents, in order, each
  with the name of its document. Every selection tracker bound to a mutated
  document then processes the events of that document: the selections of the
  contexts are trackers.
\<close>

type_synonym 'x command_func =
  "parameters_parser \<Rightarrow> exec_context \<Rightarrow> 'x world \<Rightarrow>
   (error + unit) \<times> exec_context \<times> 'x world \<times> (string \<times> buffer_change) list"

text \<open>
  A tracker registers itself as a listener of the document \<open>b\<close> it is bound to
  (\<open>BufferChangeListener_AutoRegister\<close>, dynamic_selection_list.hh, line 10): of
  the mutations made, it processes those of \<open>b\<close>, in order. The selections of
  every context of the world are such trackers.
\<close>

definition track :: "string \<Rightarrow> (string \<times> buffer_change) list \<Rightarrow> selection list \<Rightarrow> selection list" where
  "track b changes sels = on_changes (map snd (filter (\<lambda>(d, ev). d = b) changes)) sels"

definition notify_context :: "(string \<times> buffer_change) list \<Rightarrow> exec_context \<Rightarrow> exec_context" where
  "notify_context changes c =
     c\<lparr>ctx_selections := track (ctx_buffer c) changes (ctx_selections c)\<rparr>"

definition notify_all :: "(string \<times> buffer_change) list \<Rightarrow> 'x world \<Rightarrow> 'x world" where
  "notify_all changes w = w\<lparr>contexts := (\<lambda>i. notify_context changes (contexts w i))\<rparr>"

text \<open>
  Modelled from the spec: the failure \<open>ClientNotFound\<close> of the client lookup
  (\<open>ClientManager\<close> is not among the sources), a recoverable failure that names
  the client.
\<close>

definition client_not_found :: "string \<Rightarrow> error" where
  "client_not_found name = runtime_error (''no client named '' @ name)"

text \<open>
  Modelled from the spec: \<open>ClientManager::get_client\<close> (not among the sources)
  returns the context of the client of that name; an explicit client "fails
  \<open>ClientNotFound\<close> if absent".
\<close>

definition get_client :: "(string \<times> nat) list \<Rightarrow> string \<Rightarrow> error + nat" where
  "get_client cm name =
     (case map_of cm name of None \<Rightarrow> Inl (client_not_found name) | Some c \<Rightarrow> Inr c)"

text \<open>
  Modelled from the spec: \<open>ClientManager::get_client_ifp\<close> (not among the
  sources) is the best-effort lookup, which returns no client when there is
  none of that name, so that the caller "silently falls back".
\<close>

definition get_client_ifp :: "(string \<times> nat) list \<Rightarrow> string \<Rightarrow> nat option" where
  "get_client_ifp cm name = map_of cm name"

text \<open>
  The loop \<open>for (auto& sel : sels)\<close> over the tracker \<open>sels\<close>, which is bound to
  the document \<open>b\<close> of the real context and so follows the mutations the closure
  makes: \<open>k\<close> iterations are left and the iterator stands at index \<open>i\<close>. The end
  of the range is read once, before the first iteration; should the tracker
  have merged selections away since, the iterator stands past the end of the
  vector, which C++ leaves undefined: the model stops there with
  \<open>assert_failed\<close>.
\<close>

fun itersel_loop ::
  "'x command_func \<Rightarrow> parameters_parser \<Rightarrow> string \<Rightarrow> nat \<Rightarrow> nat \<Rightarrow> selection list \<Rightarrow>
   exec_context \<Rightarrow> 'x world \<Rightarrow> (error + unit) \<times> 'x world" where
  "itersel_loop func parser b 0 i sels draft w = (Inr (), w)"
| "itersel_loop func parser b (Suc k) i sels draft w =
     (if length sels \<le> i then (Inl assert_failed, w)
      else
        case func parser (draft\<lparr>ctx_selections := [sels ! i]\<rparr>) w of
          (r, draft', w1, changes) \<Rightarrow>
            let w' = notify_all changes w1;
                sels' = track b changes sels
            in case r of
                 Inl e \<Rightarrow> (Inl e, w')
               | Inr u \<Rightarrow> itersel_loop func parser b k (Suc i) sels' draft' w')"

text \<open>\<open>Window::forget_timestamp\<close> (window.hh is not among the sources) makes the
  window of a context forget the state of the document it has drawn, which
  forces it to redraw.\<close>

definition forget_timestamp :: "nat \<Rightarrow> 'x world \<Rightarrow> 'x world" where
  "forget_timestamp c w = w\<lparr>contexts := (contexts w)(c := (contexts w c)\<lparr>ctx_window := Some (- 1)\<rparr>)\<rparr>"

text \<open>The target context: the first step of \<open>context_wrap\<close> (lines 554 to 563).\<close>

definition pick_context :: "parameters_parser \<Rightarrow> nat \<Rightarrow> 'x world \<Rightarrow> error + nat" where
  "pick_context parser self w =
     (if has_option parser ''client''
      then get_client (clients w) (option_value parser ''client'')
      else if has_option parser ''try-client''
      then (case get_client_ifp (clients w) (option_value parser ''try-client'') of
              Some client \<Rightarrow> Inr client
            | None \<Rightarrow> Inr self)
      else Inr self)"

definition context_wrap ::
  "'x command_func \<Rightarrow> parameters_parser \<Rightarrow> nat \<Rightarrow> 'x world \<Rightarrow> (error + unit) \<times> 'x world" where
  "context_wrap func parser self w =
     (if positional_count parser < 1 then (Inl wrong_argument_count, w)
      else
        case pick_context parser self w of
          Inl e \<Rightarrow> (Inl e, w)
        | Inr real_context \<Rightarrow>
           (case
              (if has_option parser ''draft'' then
                 let rc = contexts w real_context;
                     draft = \<lparr>ctx_buffer = ctx_buffer rc, ctx_selections = ctx_selections rc,
                              ctx_name = ctx_name rc, ctx_editing = False,
                              ctx_undo_handling = (\<not> ctx_editing rc), ctx_window = None\<rparr>
                 in if has_option parser ''itersel'' then
                      let sels = ctx_selections rc
                      in itersel_loop func parser (ctx_buffer rc) (length sels) 0 sels draft w
                    else
                      (case func parser draft w of
                         (r, draft', w1, changes) \<Rightarrow> (r, notify_all changes w1))
               else if has_option parser ''itersel''
               then (Inl (runtime_error ''-itersel makes no sense without -draft''), w)
               else
                 (case func parser (contexts w real_context) w of
                    (r, rc', w1, changes) \<Rightarrow>
                      let w' = notify_all changes w1
                      in (r, w'\<lparr>contexts := (contexts w')(real_context := rc')\<rparr>))) of
              (Inl e, w') \<Rightarrow> (Inl e, w')
            | (Inr u, w') \<Rightarrow>
                (Inr (),
                 if real_context \<noteq> self \<and> ctx_window (contexts w' real_context) \<noteq> None
                 then forget_timestamp real_context w' else w')))"

text \<open>
  Observing the calls of a closure: \<open>traced func\<close> behaves as \<open>func\<close> and also
  appends, to a log kept beside the rest of the world, the context each call
  was made on.
\<close>

definition traced :: "'x command_func \<Rightarrow> ('x \<times> exec_context list) command_func" where
  "traced func parser ctx w =
     (case func parser ctx \<lparr>contexts = contexts w, clients = clients w, extern = fst (extern w)\<rparr> of
        (r, ctx', w1, changes) \<Rightarrow>
          (r, ctx',
           \<lparr>contexts = contexts w1, clients = clients w1,
            extern = (extern w1, snd (extern w) @ [ctx])\<rparr>,
           changes))"

text \<open>
  A closure that, on every call, completes, mutates no document, and leaves
  the selection list of the context \<open>real_context\<close> of the world as it found
  it (it runs no command on that client and does not edit).
\<close>

definition quiet :: "'x command_func \<Rightarrow> parameters_parser \<Rightarrow> nat \<Rightarrow> bool" where
  "quiet func parser real_context =
     (\<forall>ctx w.
        fst (func parser ctx w) = Inr ()
        \<and> snd (snd (snd (func parser ctx w))) = []
        \<and> ctx_selections (contexts (fst (snd (snd (func parser ctx w)))) real_context)
            = ctx_selections (contexts w real_context))"

text \<open>
  Closures to run the model on. The first appends the selections it sees to a
  log and then moves the selection of the context it is called on to the start
  of the document; the second counts its calls and throws on every one of them; the third
  inserts three bytes at line 1, column 0 of the document of its context on
  every call; the fourth runs a command on the client \<open>client0\<close> that leaves
  this client with one empty selection at the start of the document, as
  \<open>exec -client client0 gg\<close> does.
\<close>

definition log_selections :: "(selection list list) command_func" where
  "log_selections parser ctx w =
     (Inr (), ctx\<lparr>ctx_selections := [\<lparr>sel_first = (0, 0), sel_last = (0, 0)\<rparr>]\<rparr>,
      w\<lparr>extern := extern w @ [ctx_selections ctx]\<rparr>, [])"

definition failing_func :: "nat command_func" where
  "failing_func parser ctx w =
     (Inl (runtime_error ''no such command''), ctx, w\<lparr>extern := Suc (extern w)\<rparr>, [])"

definition inserting_func :: "nat command_func" where
  "inserting_func parser ctx w =
     (Inr (), ctx, w\<lparr>extern := Suc (extern w)\<rparr>, [(ctx_buffer ctx, Inserted (1, 0) (1, 3))])"

definition jumping_func :: "nat command_func" where
  "jumping_func parser ctx w =
     (case get_client_ifp (clients w) ''client0'' of
        None \<Rightarrow> (Inr (), ctx, w, [])
      | Some c \<Rightarrow>
          (Inr (), ctx,
           w\<lparr>contexts := (contexts w)
                (c := (contexts w c)\<lparr>ctx_selections := [\<lparr>sel_first = (0, 0), sel_last = (0, 0)\<rparr>]\<rparr>)\<rparr>,
           []))"

text \<open>A world to run the model on: every context is bound to the document
  \<open>foo\<close> and holds three selections, and the client \<open>client0\<close> owns context 0.\<close>

definition three_selections :: "selection list" where
  "three_selections =
     [\<lparr>sel_first = (0, 0), sel_last = (0, 2)\<rparr>,
      \<lparr>sel_first = (1, 4), sel_last = (1, 1)\<rparr>,
      \<lparr>sel_first = (2, 0), sel_last = (3, 0)\<rparr>]"

definition sample_context :: exec_context where
  "sample_context =
     \<lparr>ctx_buffer = ''foo'', ctx_selections = three_selections, ctx_name = ''client0'',
      ctx_editing = False, ctx_undo_handling = True, ctx_window = Some 7\<rparr>"

definition sample_world :: "'x \<Rightarrow> 'x world" where
  "sample_world x =
     \<lparr>contexts = (\<lambda>i. sample_context), clients = [(''client0'', 0)], extern = x\<rparr>"

section \<open>Properties of the selection tracker\<close>

lemma sel_min_le_max: "sel_min a \<le> sel_max a"
  by (simp add: sel_min_def sel_max_def min_le_iff_disj)

lemma sel_min_merge_with: "sel_min (merge_with a b) = min (sel_min a) (sel_min b)"
  by (auto simp: merge_with_def Let_def sel_min_def sel_max_def min_def max_def)

lemma sel_max_merge_with: "sel_max (merge_with a b) = max (sel_max a) (sel_max b)"
  by (auto simp: merge_with_def Let_def sel_min_def sel_max_def min_def max_def)

lemma merge_overlapping_nonempty: "sels \<noteq> [] \<Longrightarrow> merge_overlapping sels \<noteq> []"
  by (induction sels rule: merge_overlapping.induct) auto

lemma merge_overlapping_lower_bound:
  "\<forall>y \<in> set sels. m \<le> sel_min y \<Longrightarrow> \<forall>x \<in> set (merge_overlapping sels). m \<le> sel_min x"
  by (induction sels rule: merge_overlapping.induct) (auto simp: sel_min_merge_with)

text \<open>Merging a list sorted by position leaves no selection reaching a later one.\<close>

lemma merge_overlapping_disjoint:
  "sorted (map sel_min sels) \<Longrightarrow>
   sorted_wrt (\<lambda>a b. sel_max a < sel_min b) (merge_overlapping sels)"
proof (induction sels rule: merge_overlapping.induct)
  case 1
  then show ?case by simp
next
  case (2 a)
  then show ?case by simp
next
  case (3 a b sels)
  have le: "sel_min a \<le> sel_min b" using 3(3) by simp
  show ?case
  proof (cases "overlaps a b")
    case True
    from le have "sel_min (merge_with a b) = sel_min a" by (simp add: sel_min_merge_with)
    then have "sorted (map sel_min (merge_with a b # sels))" using 3(3) by auto
    then show ?thesis using True 3(1) by simp
  next
    case False
    have "sel_min b \<le> sel_max b" by (rule sel_min_le_max)
    with le False have lt: "sel_max a < sel_min b"
      by (auto simp: overlaps_def)
    have "\<forall>y \<in> set (b # sels). sel_min b \<le> sel_min y" using 3(3) by auto
    then have "\<forall>x \<in> set (merge_overlapping (b # sels)). sel_min b \<le> sel_min x"
      by (rule merge_overlapping_lower_bound)
    with lt have "\<forall>x \<in> set (merge_overlapping (b # sels)). sel_max a < sel_min x"
      by fastforce
    moreover have "sorted_wrt (\<lambda>a b. sel_max a < sel_min b) (merge_overlapping (b # sels))"
      using 3(2) False 3(3) by simp
    ultimately show ?thesis using False by simp
  qed
qed

lemma disjoint_sorted:
  assumes "sorted_wrt (\<lambda>a b. sel_max a < sel_min b) sels"
  shows "sorted (map sel_min sels)"
proof -
  have "sorted_wrt (\<lambda>a b. sel_min a \<le> sel_min b) sels"
  proof (rule sorted_wrt_mono_rel [OF _ assms])
    fix x y assume "sel_max x < sel_min y"
    with sel_min_le_max [of x] show "sel_min x \<le> sel_min y" by simp
  qed
  then show ?thesis by (simp add: sorted_map)
qed

lemma sort_and_merge_invariant:
  assumes "sels \<noteq> []"
  shows "check_invariant (sort_and_merge sels)"
proof -
  have s: "sorted (map sel_min (sort_key sel_min sels))" by simp
  have "sort_key sel_min sels \<noteq> []" using assms by (metis length_sort length_0_conv)
  then have "merge_overlapping (sort_key sel_min sels) \<noteq> []"
    by (rule merge_overlapping_nonempty)
  moreover have d: "sorted_wrt (\<lambda>a b. sel_max a < sel_min b)
      (merge_overlapping (sort_key sel_min sels))"
    using s by (rule merge_overlapping_disjoint)
  ultimately show ?thesis using disjoint_sorted [OF d]
    by (simp add: check_invariant_def sort_and_merge_def)
qed

lemma on_change_invariant: "sels \<noteq> [] \<Longrightarrow> check_invariant (on_change ev sels)"
  by (cases ev) (simp_all add: on_insert_def on_erase_def sort_and_merge_invariant)

text \<open>
  Claim C1. A tracker that holds at least one selection (a selection list is
  never empty) satisfies its invariant after every event of any sequence of
  insert and erase events: the list is non-empty, sorted by position, and no
  selection reaches the start of a later one. The list of events is arbitrary,
  so the statement covers the state after each event of a longer sequence.
\<close>

theorem tracker_invariant:
  assumes "sels \<noteq> []" and "changes \<noteq> []"
  shows "check_invariant (on_changes changes sels)"
  using assms
proof (induction changes arbitrary: sels rule: rev_induct)
  case Nil
  then show ?case by simp
next
  case (snoc ev changes)
  have ne: "on_changes changes sels \<noteq> []"
  proof (cases "changes = []")
    case True
    then show ?thesis using snoc.prems by (simp add: on_changes_def)
  next
    case False
    then have "check_invariant (on_changes changes sels)" using snoc by simp
    then show ?thesis by (simp add: check_invariant_def)
  qed
  have "on_changes (changes @ [ev]) sels = on_change ev (on_changes changes sels)"
    by (simp add: on_changes_def)
  then show ?case using on_change_invariant [OF ne] by simp
qed

theorem tracker_invariant_witness:
  "check_invariant
     (on_changes [Inserted (1, 0) (1, 3), Erased (0, 0) (2, 0)]
        [\<lparr>sel_first = (1, 0), sel_last = (1, 0)\<rparr>, \<lparr>sel_first = (3, 0), sel_last = (2, 5)\<rparr>])"
  using tracker_invariant
    [of "[\<lparr>sel_first = (1, 0), sel_last = (1, 0)\<rparr>, \<lparr>sel_first = (3, 0), sel_last = (2, 5)\<rparr>]"
        "[Inserted (1, 0) (1, 3), Erased (0, 0) (2, 0)]"]
  by simp

text \<open>An insertion moves the coordinates without changing their order.\<close>

lemma update_insert_strict_mono:
  assumes "begin \<le> end" and "c < d"
  shows "update_insert begin end c < update_insert begin end d"
  using assms
  by (cases "begin"; cases "end"; cases c; cases d)
     (auto simp: update_insert_def less_prod_def less_eq_prod_def split: if_splits)

lemma strict_mono_min:
  assumes "\<And>c d. c < d \<Longrightarrow> f c < f (d::buffer_coord)"
  shows "min (f a) (f b) = (f (min a b) :: buffer_coord)"
proof -
  have "a < b \<or> a = b \<or> b < a" by auto
  then show ?thesis using assms [of a b] assms [of b a] by (auto simp: min_def)
qed

lemma strict_mono_max:
  assumes "\<And>c d. c < d \<Longrightarrow> f c < f (d::buffer_coord)"
  shows "max (f a) (f b) = (f (max a b) :: buffer_coord)"
proof -
  have "a < b \<or> a = b \<or> b < a" by auto
  then show ?thesis using assms [of a b] assms [of b a] by (auto simp: max_def)
qed

lemma update_selection_disjoint:
  assumes mono: "\<And>c d. c < d \<Longrightarrow> f c < f (d::buffer_coord)"
    and "sorted_wrt (\<lambda>a b. sel_max a < sel_min b) sels"
  shows "sorted_wrt (\<lambda>a b. sel_max a < sel_min b) (map (update_selection f) sels)"
proof -
  have mn: "sel_min (update_selection f s) = f (sel_min s)" for s
    using strict_mono_min [of f "sel_first s" "sel_last s"] mono
    by (simp add: sel_min_def update_selection_def)
  have mx: "sel_max (update_selection f s) = f (sel_max s)" for s
    using strict_mono_max [of f "sel_first s" "sel_last s"] mono
    by (simp add: sel_max_def update_selection_def)
  show ?thesis
    unfolding sorted_wrt_map mn mx
    by (rule sorted_wrt_mono_rel [OF _ assms(2)]) (simp add: mono)
qed

lemma merge_overlapping_id:
  "sorted_wrt (\<lambda>a b. sel_max a < sel_min b) sels \<Longrightarrow> merge_overlapping sels = sels"
  by (induction sels rule: merge_overlapping.induct) (auto simp: overlaps_def)

lemma sort_and_merge_id:
  assumes "sorted_wrt (\<lambda>a b. sel_max a < sel_min b) sels"
  shows "sort_and_merge sels = sels"
  using assms disjoint_sorted [OF assms]
  by (simp add: sort_and_merge_def sort_key_id_if_sorted merge_overlapping_id)

text \<open>
  Claim C3. On an insertion from \<open>begin\<close> to \<open>end\<close>, a coordinate after
  \<open>begin\<close> or exactly at \<open>begin\<close> is shifted forward by the extent of the
  inserted span. For a tracker that satisfies its invariant (and \<open>begin\<close> not
  after \<open>end\<close>, as the mutation events have it) the handler does this to both
  coordinates of every selection and changes nothing else: no selection is
  reordered or merged. In particular the empty selection at line 1, column 0
  becomes the empty selection at line 1, column 3 when 3 bytes are inserted at
  line 1, column 0.
\<close>

theorem on_insert_shifts:
  "(begin \<le> coord \<longrightarrow>
      update_insert begin end coord
        = (fst coord + (fst end - fst begin),
           if fst coord = fst begin then snd coord + (snd end - snd begin) else snd coord))
   \<and> (check_invariant sels \<and> begin \<le> end \<longrightarrow>
        on_insert begin end sels = map (update_selection (update_insert begin end)) sels)
   \<and> on_insert (1, 0) (1, 3) [\<lparr>sel_first = (1, 0), sel_last = (1, 0)\<rparr>]
       = [\<lparr>sel_first = (1, 3), sel_last = (1, 3)\<rparr>]"
proof (intro conjI impI)
  assume "begin \<le> coord"
  then show "update_insert begin end coord
        = (fst coord + (fst end - fst begin),
           if fst coord = fst begin then snd coord + (snd end - snd begin) else snd coord)"
    by (simp add: update_insert_def not_less [symmetric])
next
  assume a: "check_invariant sels \<and> begin \<le> end"
  then have "sorted_wrt (\<lambda>a b. sel_max a < sel_min b)
      (map (update_selection (update_insert begin end)) sels)"
    by (intro update_selection_disjoint update_insert_strict_mono)
       (auto simp: check_invariant_def)
  then show "on_insert begin end sels = map (update_selection (update_insert begin end)) sels"
    by (simp add: on_insert_def sort_and_merge_id)
next
  show "on_insert (1, 0) (1, 3) [\<lparr>sel_first = (1, 0), sel_last = (1, 0)\<rparr>]
       = [\<lparr>sel_first = (1, 3), sel_last = (1, 3)\<rparr>]"
    by (simp add: on_insert_def sort_and_merge_def update_selection_def update_insert_def)
qed

theorem on_insert_shifts_witness:
  "update_insert (1, 0) (1, 3) (1, 0) = (1, 3)
   \<and> on_insert (1, 0) (1, 3) three_selections
       = [\<lparr>sel_first = (0, 0), sel_last = (0, 2)\<rparr>,
          \<lparr>sel_first = (1, 7), sel_last = (1, 4)\<rparr>,
          \<lparr>sel_first = (2, 0), sel_last = (3, 0)\<rparr>]"
  using on_insert_shifts [of "(1, 0)" "(1, 0)" "(1, 3)" three_selections]
  by (simp add: three_selections_def check_invariant_def sel_min_def sel_max_def
      update_selection_def update_insert_def)

section \<open>Properties of the registries and the scopes\<close>

text \<open>
  Claim C4, on the code. The scope keyword \<open>buffer=<name>\<close> resolves to the
  registry of the named document for the options only, whatever the current
  document of the context is; \<open>get_hook_manager\<close> and \<open>get_keymap_manager\<close> have
  no such case and reject the keyword as an unknown container.
\<close>

theorem scope_buffer_name:
  "get_hook_manager (''buffer='' @ name) ctx
     = Inl (runtime_error (''error: no such hook container buffer='' @ name))
   \<and> get_keymap_manager (''buffer='' @ name) ctx
     = Inl (runtime_error (''error: no such keymap container buffer='' @ name))
   \<and> get_options buffers (''buffer='' @ name) ctx =
       (if name \<in> set buffers then Inr (BufferScope name)
        else Inl (runtime_error (''no such buffer '' @ name)))"
  by (simp add: get_hook_manager_def get_keymap_manager_def get_options_def
      prefix_match_def get_buffer_def)

text \<open>
  Claim C5 as stated fails: registering the name \<open>f\<close> a second time raises no
  recoverable failure, neither with the assertions compiled in nor without
  them, in the function registry as in the highlighter registry.
\<close>

theorem register_duplicate_counterexample:
  "\<not> (\<exists>e. register_func True ''f'' (2::nat) [(''f'', 1)] = Inl e \<and> recoverable e)
   \<and> \<not> (\<exists>e. register_func False ''f'' (2::nat) [(''f'', 1)] = Inl e \<and> recoverable e)
   \<and> \<not> (\<exists>e. register_factory True ''f'' (2::nat) [(''f'', 1)] = Inl e \<and> recoverable e)
   \<and> \<not> (\<exists>e. register_factory False ''f'' (2::nat) [(''f'', 1)] = Inl e \<and> recoverable e)"
  by (simp add: register_func_def register_factory_def id_map_contains_def id_map_append_def)

text \<open>
  Claim C5, amended. Registering under a name the registry already holds
  violates the assertion of \<open>register_func\<close> and of \<open>register_factory\<close>: with
  assertions compiled in the operation stops on the failed assertion, which is
  not a recoverable failure, and the registry is left as it was; with
  assertions compiled out the entry is appended after the existing ones. In
  both cases the lookup by exact name still returns the entry registered
  first.
\<close>

theorem register_duplicate_asserted:
  assumes "id_map_contains m name"
  shows "register_func True name f m = Inl assert_failed
    \<and> register_factory True name f m = Inl assert_failed
    \<and> \<not> recoverable assert_failed
    \<and> register_func False name f m = Inr (m @ [(name, f)])
    \<and> register_factory False name f m = Inr (m @ [(name, f)])
    \<and> registry_lookup (m @ [(name, f)]) name = registry_lookup m name
    \<and> find_factory (m @ [(name, f)]) name = find_factory m name"
  using assms
  by (auto simp: register_func_def register_factory_def id_map_contains_def id_map_append_def
      registry_lookup_def find_factory_def id_map_find_def map_add_def split: option.splits)

theorem register_duplicate_asserted_witness:
  "register_func True ''f'' (2::nat) [(''f'', 1)] = Inl assert_failed
   \<and> register_func False ''f'' (2::nat) [(''f'', 1)] = Inr [(''f'', 1), (''f'', 2)]
   \<and> registry_lookup [(''f'', 1), (''f'', 2::nat)] ''f'' = Inr 1"
  using register_duplicate_asserted [of "[(''f'', 1::nat)]" "''f''" 2]
  by (simp add: id_map_contains_def registry_lookup_def id_map_find_def)

section \<open>Properties of the commands\<close>

lemma track_Nil [simp]: "track b [] sels = sels"
  by (simp add: track_def on_changes_def)

lemma notify_all_Nil [simp]: "notify_all [] w = w"
  by (simp add: notify_all_def notify_context_def)

lemma traced_quiet:
  assumes "quiet func parser real_context"
  shows "\<exists>ctx' w1. traced func parser ctx w = (Inr (), ctx', w1, [])
      \<and> snd (extern w1) = snd (extern w) @ [ctx]
      \<and> ctx_selections (contexts w1 real_context) = ctx_selections (contexts w real_context)"
proof -
  let ?w = "\<lparr>contexts = contexts w, clients = clients w, extern = fst (extern w)\<rparr>"
  obtain r ctx' w0 changes where f: "func parser ctx ?w = (r, ctx', w0, changes)"
    by (metis prod_cases4)
  from assms have "fst (func parser ctx ?w) = Inr ()"
    and "snd (snd (snd (func parser ctx ?w))) = []"
    and "ctx_selections (contexts (fst (snd (snd (func parser ctx ?w)))) real_context)
          = ctx_selections (contexts ?w real_context)"
    by (simp_all add: quiet_def)
  with f have "r = Inr ()" "changes = []"
    "ctx_selections (contexts w0 real_context) = ctx_selections (contexts w real_context)"
    by simp_all
  with f show ?thesis by (simp add: traced_def)
qed

text \<open>
  The loop over a tracker that receives no event: one call per selection from
  the index \<open>i\<close> on, in order, each on a context that holds this selection
  alone; the selections of the real context are what they were.
\<close>

lemma itersel_loop_quiet:
  assumes "quiet func parser real_context"
  shows "i + k = length sels \<Longrightarrow>
    \<exists>w'. itersel_loop (traced func) parser b k i sels draft w = (Inr (), w')
      \<and> ctx_selections (contexts w' real_context) = ctx_selections (contexts w real_context)
      \<and> map ctx_selections (snd (extern w'))
          = map ctx_selections (snd (extern w)) @ map (\<lambda>s. [s]) (drop i sels)"
proof (induction k arbitrary: i draft w)
  case 0
  then show ?case by simp
next
  case (Suc k)
  let ?ctx = "draft\<lparr>ctx_selections := [sels ! i]\<rparr>"
  from Suc.prems have i: "i < length sels" by simp
  obtain ctx' w1 where t: "traced func parser ?ctx w = (Inr (), ctx', w1, [])"
    and log: "snd (extern w1) = snd (extern w) @ [?ctx]"
    and real: "ctx_selections (contexts w1 real_context) = ctx_selections (contexts w real_context)"
    using traced_quiet [OF assms] by blast
  from Suc.prems have "Suc i + k = length sels" by simp
  from Suc.IH [OF this, of ctx' w1]
  obtain w' where w': "itersel_loop (traced func) parser b k (Suc i) sels ctx' w1 = (Inr (), w')"
    "ctx_selections (contexts w' real_context) = ctx_selections (contexts w1 real_context)"
    "map ctx_selections (snd (extern w'))
       = map ctx_selections (snd (extern w1)) @ map (\<lambda>s. [s]) (drop (Suc i) sels)"
    by auto
  have "itersel_loop (traced func) parser b (Suc k) i sels draft w = (Inr (), w')"
    using i t w'(1) by simp
  moreover have "map ctx_selections (snd (extern w'))
      = map ctx_selections (snd (extern w)) @ map (\<lambda>s. [s]) (drop i sels)"
    using w'(3) log i by (simp add: Cons_nth_drop_Suc [symmetric])
  ultimately show ?case using w'(2) real by auto
qed

text \<open>
  Claim C2 as stated fails: with three selections in the target context, a
  closure that throws is called once, not three times; its failure leaves the
  loop at once.
\<close>

theorem draft_itersel_counterexample:
  "fst (context_wrap (traced failing_func)
          \<lparr>switches = [(''draft'', []), (''itersel'', [])], positionals = [''x'']\<rparr>
          0 (sample_world (0, [])))
     = Inl (runtime_error ''no such command'')
   \<and> length (snd (extern (snd (context_wrap (traced failing_func)
          \<lparr>switches = [(''draft'', []), (''itersel'', [])], positionals = [''x'']\<rparr>
          0 (sample_world (0, [])))))) = 1
   \<and> length (ctx_selections (contexts (sample_world (0, [])) 0)) = 3"
  by code_simp

text \<open>
  Nor does the claim hold of every closure that never fails. A closure that
  edits the document: the selections iterated over and the selections of the
  real context are trackers of that document, so the second call sees the
  second selection as the insertion of the first call has moved it, and the
  selections of the real context have moved with the three insertions.
\<close>

lemma draft_itersel_tracks_mutations:
  "map ctx_selections (snd (extern (snd (context_wrap (traced inserting_func)
          \<lparr>switches = [(''draft'', []), (''itersel'', [])], positionals = [''x'']\<rparr>
          0 (sample_world (0, []))))))
     = [[\<lparr>sel_first = (0, 0), sel_last = (0, 2)\<rparr>],
        [\<lparr>sel_first = (1, 7), sel_last = (1, 4)\<rparr>],
        [\<lparr>sel_first = (2, 0), sel_last = (3, 0)\<rparr>]]
   \<and> ctx_selections (contexts (snd (context_wrap (traced inserting_func)
          \<lparr>switches = [(''draft'', []), (''itersel'', [])], positionals = [''x'']\<rparr>
          0 (sample_world (0, [])))) 0)
     = [\<lparr>sel_first = (0, 0), sel_last = (0, 2)\<rparr>,
        \<lparr>sel_first = (1, 13), sel_last = (1, 10)\<rparr>,
        \<lparr>sel_first = (2, 0), sel_last = (3, 0)\<rparr>]"
  by code_simp

text \<open>
  A closure that runs a command on the client of the real context: it
  completes and edits nothing, is called once per selection, and the real
  context ends with the selection that command left, not with its own three.
\<close>

lemma draft_itersel_reaches_real_context:
  "fst (context_wrap (traced jumping_func)
          \<lparr>switches = [(''draft'', []), (''itersel'', [])], positionals = [''x'']\<rparr>
          0 (sample_world (0, [])))
     = Inr ()
   \<and> map ctx_selections (snd (extern (snd (context_wrap (traced jumping_func)
          \<lparr>switches = [(''draft'', []), (''itersel'', [])], positionals = [''x'']\<rparr>
          0 (sample_world (0, []))))))
     = map (\<lambda>sel. [sel]) three_selections
   \<and> ctx_selections (contexts (snd (context_wrap (traced jumping_func)
          \<lparr>switches = [(''draft'', []), (''itersel'', [])], positionals = [''x'']\<rparr>
          0 (sample_world (0, [])))) 0)
     = [\<lparr>sel_first = (0, 0), sel_last = (0, 0)\<rparr>]"
  by code_simp

text \<open>
  Claim C2, amended. For a closure that on every call completes, mutates no
  document and leaves the selection list of the real context of the world as
  it found it (whatever it does to the context it is called on), and a target
  context that holds n selections, \<open>context_wrap\<close> with the draft and itersel
  switches returns normally after calling the closure exactly n times, in the
  order of the selections, the call for a selection being made on a context
  whose selection list is that selection alone; afterwards the selection list
  of the real context is what it was: nothing of the draft context is written
  back. The calls are observed by \<open>traced\<close>, which logs the context of each
  call.
\<close>

theorem draft_itersel_replays:
  assumes "has_option parser ''draft''"
    and "has_option parser ''itersel''"
    and "0 < positional_count parser"
    and "pick_context parser self w = Inr real_context"
    and "quiet func parser real_context"
  shows "\<exists>w'. context_wrap (traced func) parser self w = (Inr (), w')
     \<and> map ctx_selections (snd (extern w'))
         = map ctx_selections (snd (extern w))
           @ map (\<lambda>sel. [sel]) (ctx_selections (contexts w real_context))
     \<and> ctx_selections (contexts w' real_context) = ctx_selections (contexts w real_context)"
proof -
  let ?rc = "contexts w real_context"
  let ?draft = "\<lparr>ctx_buffer = ctx_buffer ?rc, ctx_selections = ctx_selections ?rc,
      ctx_name = ctx_name ?rc, ctx_editing = False,
      ctx_undo_handling = (\<not> ctx_editing ?rc), ctx_window = None\<rparr>"
  have "0 + length (ctx_selections ?rc) = length (ctx_selections ?rc)" by simp
  from itersel_loop_quiet [OF assms(5) this, of "ctx_buffer ?rc" ?draft w]
  obtain w1 where w1:
    "itersel_loop (traced func) parser (ctx_buffer ?rc) (length (ctx_selections ?rc)) 0
       (ctx_selections ?rc) ?draft w = (Inr (), w1)"
    "ctx_selections (contexts w1 real_context) = ctx_selections ?rc"
    "map ctx_selections (snd (extern w1))
       = map ctx_selections (snd (extern w)) @ map (\<lambda>s. [s]) (ctx_selections ?rc)"
    by auto
  let ?w' = "if real_context \<noteq> self \<and> ctx_window (contexts w1 real_context) \<noteq> None
             then forget_timestamp real_context w1 else w1"
  have "context_wrap (traced func) parser self w = (Inr (), ?w')"
    using assms(1-4) w1(1) by (simp add: context_wrap_def Let_def)
  moreover have "extern ?w' = extern w1" by (simp add: forget_timestamp_def)
  moreover have "ctx_selections (contexts ?w' real_context) = ctx_selections ?rc"
    using w1(2) by (simp add: forget_timestamp_def)
  ultimately show ?thesis using w1(3) by auto
qed

text \<open>
  The test of the spec: a closure that appends the selections it sees to an
  external log (and moves the selection of the draft context it is called on),
  run over three selections, leaves three entries in the order of the
  selections, and the real context keeps its selections.
\<close>

theorem draft_itersel_replays_witness:
  "(\<exists>w'. context_wrap (traced log_selections)
            \<lparr>switches = [(''draft'', []), (''itersel'', [])], positionals = [''x'']\<rparr>
            0 (sample_world ([], [])) = (Inr (), w')
       \<and> map ctx_selections (snd (extern w')) = map (\<lambda>sel. [sel]) three_selections
       \<and> ctx_selections (contexts w' 0) = three_selections)
   \<and> fst (extern (snd (context_wrap (traced log_selections)
            \<lparr>switches = [(''draft'', []), (''itersel'', [])], positionals = [''x'']\<rparr>
            0 (sample_world ([], [])))))
      = map (\<lambda>sel. [sel]) three_selections"
proof
  have q: "quiet log_selections p c" for p c
    by (simp add: quiet_def log_selections_def)
  show "\<exists>w'. context_wrap (traced log_selections)
            \<lparr>switches = [(''draft'', []), (''itersel'', [])], positionals = [''x'']\<rparr>
            0 (sample_world ([], [])) = (Inr (), w')
       \<and> map ctx_selections (snd (extern w')) = map (\<lambda>sel. [sel]) three_selections
       \<and> ctx_selections (contexts w' 0) = three_selections"
    using draft_itersel_replays
      [of "\<lparr>switches = [(''draft'', []), (''itersel'', [])], positionals = [''x'']\<rparr>"
          0 "sample_world ([], [])" 0 log_selections, OF _ _ _ _ q]
    by (simp add: has_option_def positional_count_def pick_context_def sample_world_def
        sample_context_def)
  show "fst (extern (snd (context_wrap (traced log_selections)
            \<lparr>switches = [(''draft'', []), (''itersel'', [])], positionals = [''x'']\<rparr>
            0 (sample_world ([], [])))))
      = map (\<lambda>sel. [sel]) three_selections"
    by code_simp
qed

text \<open>
  Claim C6 as stated fails: with the itersel switch, without the draft switch
  and with an explicit client that does not exist, the failure raised is that
  of the client lookup, not the one about the switches.
\<close>

theorem itersel_without_draft_counterexample:
  "fst (context_wrap failing_func
          \<lparr>switches = [(''client'', ''ghost''), (''itersel'', [])], positionals = [''x'']\<rparr>
          0 (sample_world 0))
     = Inl (client_not_found ''ghost'')
   \<and> client_not_found ''ghost'' \<noteq> runtime_error ''-itersel makes no sense without -draft''"
  by (simp add: context_wrap_def pick_context_def get_client_def has_option_def option_value_def
      positional_count_def sample_world_def client_not_found_def)

text \<open>
  Claim C6, amended. \<open>context_wrap\<close> with the itersel switch and without the
  draft switch always fails with a recoverable failure and leaves the world as
  it was, whatever the closure is, so the closure has not been called: the
  failure is \<open>-itersel makes no sense without -draft\<close>, unless the client switch
  names a client that does not exist, in which case the lookup of the client
  has failed before.
\<close>

theorem itersel_without_draft:
  assumes "has_option parser ''itersel''"
    and "\<not> has_option parser ''draft''"
    and "0 < positional_count parser"
  shows "context_wrap func parser self w =
     (if has_option parser ''client''
         \<and> get_client_ifp (clients w) (option_value parser ''client'') = None
      then (Inl (client_not_found (option_value parser ''client'')), w)
      else (Inl (runtime_error ''-itersel makes no sense without -draft''), w))"
  using assms
  by (auto simp: context_wrap_def pick_context_def get_client_def get_client_ifp_def
      split: option.splits sum.splits)

theorem itersel_without_draft_witness:
  "context_wrap failing_func \<lparr>switches = [(''itersel'', [])], positionals = [''x'']\<rparr> 0
      (sample_world 0)
    = (Inl (runtime_error ''-itersel makes no sense without -draft''), sample_world 0)
   \<and> context_wrap failing_func
      \<lparr>switches = [(''client'', ''client0''), (''itersel'', [])], positionals = [''x'']\<rparr> 0
      (sample_world 0)
    = (Inl (runtime_error ''-itersel makes no sense without -draft''), sample_world 0)"
  using itersel_without_draft
      [of "\<lparr>switches = [(''itersel'', [])], positionals = [''x'']\<rparr>"
          failing_func 0 "sample_world 0"]
    itersel_without_draft
      [of "\<lparr>switches = [(''client'', ''client0''), (''itersel'', [])], positionals = [''x'']\<rparr>"
          failing_func 0 "sample_world 0"]
  by (simp add: has_option_def option_value_def positional_count_def get_client_ifp_def
      sample_world_def)

text \<open>
  Claim C7. Whatever the keys do to the registers and to the rest of the
  editor, and whether handling them returns or throws, the default yank
  register (the double quote, byte 0x22) and the search register (the slash)
  hold after \<open>exec_keys\<close> the values they held before it.
\<close>

theorem exec_keys_restores_registers:
  "registers (snd (exec_keys handle_key begin_edition end_edition keys s)) (CHR 0x22)
     = registers s (CHR 0x22)
   \<and> registers (snd (exec_keys handle_key begin_edition end_edition keys s)) (CHR ''/'')
     = registers s (CHR ''/'')"
  by (simp add: exec_keys_def Let_def restore_register_def split: prod.splits)

text \<open>
  Claim C8 as stated fails: a \<open>try\<close> with no catch clause whose command raises
  a recoverable failure returns normally; the failure does not propagate.
\<close>

theorem try_catch_counterexample:
  "try_catch log_execute [''fail''] [] = (Inr (), [])"
  by (simp add: try_catch_def log_execute_def)

text \<open>
  Claim C8, amended. A recoverable failure raised by the command of a
  well-formed \<open>try\<close> is always intercepted. With a catch clause the fallback
  command is executed on the state the failed command left, and its outcome is
  the outcome of the \<open>try\<close>; without a catch clause the failure is discarded
  and the \<open>try\<close> returns normally.
\<close>

theorem try_catch_intercepts:
  assumes "length params = 1 \<or> (length params = 3 \<and> params ! 1 = ''catch'')"
    and "execute (params ! 0) s = (Inl (runtime_error msg), s')"
  shows "try_catch execute params s
         = (if length params = 3 then execute (params ! 2) s' else (Inr (), s'))"
  using assms by (auto simp: try_catch_def)

theorem try_catch_intercepts_witness:
  "try_catch log_execute [''fail'', ''catch'', ''echo recovered''] []
     = (Inr (), [''echo recovered''])
   \<and> try_catch log_execute [''fail''] [''x''] = (Inr (), [''x''])"
  using try_catch_intercepts
      [of "[''fail'', ''catch'', ''echo recovered'']" log_execute "[]" "''fail''" "[]"]
    try_catch_intercepts [of "[''fail'']" log_execute "[''x'']" "''fail''" "[''x'']"]
  by (simp add: log_execute_def)

text \<open>
  Claim C9. The completer that \<open>define_command\<close> registers for a command
  defined with the shell-completion switch (and without the file-completion
  switch, which takes precedence) captures the shell command; called with the
  Fast flag it returns no candidate and leaves the shell as it was, for every
  context, parameter list, token index and cursor position: the shell command
  is not evaluated.
\<close>

theorem shell_completer_fast:
  assumes "has_option parser ''shell-completion''"
    and "\<not> has_option parser ''file-completion''"
    and "define_command parser cm = Inr cm'"
  shows "\<exists>cmd flags shell_cmd.
      cm' (positionals parser ! 0) = Some (cmd, flags, ShellCompleter shell_cmd)
      \<and> (\<forall>ctx params token_to_complete pos_in_token sh.
            run_completer shell_eval split complete_filename (ShellCompleter shell_cmd)
              ctx CompletionFast params token_to_complete pos_in_token sh = ([], sh))"
  using assms
  by (auto simp: define_command_def Let_def run_completer_def split: if_splits)

theorem shell_completer_fast_witness:
  "define_command \<lparr>switches = [(''shell-completion'', ''ls'')], positionals = [''lsc'', ''echo'']\<rparr>
       Map.empty
     = Inr [''lsc'' \<mapsto> (PlainCommand ''echo'', CommandFlagsNone, ShellCompleter ''ls'')]
   \<and> run_completer recording_shell (\<lambda>out sep. [out]) (\<lambda>pre ctx pos. [])
         (ShellCompleter ''ls'') () CompletionFast [''a''] 0 1 [] = ([], [])
   \<and> run_completer recording_shell (\<lambda>out sep. [out]) (\<lambda>pre ctx pos. [])
         (ShellCompleter ''ls'') () CompletionNone [''a''] 0 1 [] = ([''out''], [''ls''])"
  using shell_completer_fast
    [of "\<lparr>switches = [(''shell-completion'', ''ls'')], positionals = [''lsc'', ''echo'']\<rparr>"
        Map.empty
        "[''lsc'' \<mapsto> (PlainCommand ''echo'', CommandFlagsNone, ShellCompleter ''ls'')]"
        recording_shell "\<lambda>out sep. [out]" "\<lambda>pre ctx pos. []"]
  by (simp add: define_command_def has_option_def option_value_def positional_count_def
      run_completer_def recording_shell_def)

text \<open>
  Claim C10. \<open>declare_option\<close> with the type \<open>int\<close> never returns normally.
  When the parameters are two or three and the declaration of the integer
  option in the global registry succeeds, the operation then throws
  \<open>unknown type int\<close>: the registry holds the declared option, and an initial
  value given as third parameter has not been applied.
\<close>

theorem declare_option_int_unknown_type:
  assumes "positionals parser ! 0 = ''int''"
  shows "fst (declare_option declare set_from_string parser opts) \<noteq> Inr ()
    \<and> (\<forall>opts1.
          (positional_count parser = 2 \<or> positional_count parser = 3)
          \<and> declare IntOption (positionals parser ! 1)
              (if has_option parser ''hidden'' then OptionFlagsHidden else OptionFlagsNone) opts
              = Inr opts1
          \<longrightarrow> declare_option declare set_from_string parser opts
              = (Inl (runtime_error ''unknown type int''), opts1))"
  using assms
  by (auto simp: declare_option_def Let_def split: sum.splits)

theorem declare_option_int_unknown_type_witness:
  "declare_option simple_declare simple_set_from_string
      \<lparr>switches = [], positionals = [''int'', ''tabstop'', ''8'']\<rparr> []
    = (Inl (runtime_error ''unknown type int''), [(''tabstop'', IntOption, [])])"
  using declare_option_int_unknown_type
    [of "\<lparr>switches = [], positionals = [''int'', ''tabstop'', ''8'']\<rparr>"
        simple_declare simple_set_from_string "[]"]
  by (simp add: positional_count_def has_option_def simple_declare_def)

end
